theory Spec2Isabelle
  imports Main "HOL-Library.Word"
begin

unbundle bit_operations_syntax

section \<open>discord.pubsub.dispatcher: the subscription table\<close>

text \<open>
  \<open>DispatcherWithState.state\<close> is a \<open>defaultdict(set)\<close>: a dictionary from keys to sets
  of subscriber identifiers. A key that was never stored is absent (\<open>None\<close>); reading
  \<open>self.state[key]\<close> on an absent key does not raise, it stores the empty set under the
  key and returns it.
\<close>

type_synonym ('k, 'v) sub_state = "'k \<rightharpoonup> 'v set"

definition getitem :: "('k, 'v) sub_state \<Rightarrow> 'k \<Rightarrow> 'v set \<times> ('k, 'v) sub_state" where
  "getitem st key = (case st key of
      None \<Rightarrow> ({}, st(key \<mapsto> {}))
    | Some s \<Rightarrow> (s, st))"

text \<open>\<open>sub\<close>: \<open>self.state[key].add(identifier)\<close>.\<close>

definition sub :: "('k, 'v) sub_state \<Rightarrow> 'k \<Rightarrow> 'v \<Rightarrow> ('k, 'v) sub_state" where
  "sub st key identifier =
     (case getitem st key of (s, st') \<Rightarrow> st'(key \<mapsto> insert identifier s))"

text \<open>\<open>unsub\<close>: \<open>self.state[key].discard(identifier)\<close>; \<open>set.discard\<close> never raises.\<close>

definition unsub :: "('k, 'v) sub_state \<Rightarrow> 'k \<Rightarrow> 'v \<Rightarrow> ('k, 'v) sub_state" where
  "unsub st key identifier =
     (case getitem st key of (s, st') \<Rightarrow> st'(key \<mapsto> s - {identifier}))"

text \<open>\<open>reset\<close>: \<open>self.state[key] = set()\<close>.\<close>

definition reset :: "('k, 'v) sub_state \<Rightarrow> 'k \<Rightarrow> ('k, 'v) sub_state" where
  "reset st key = st(key \<mapsto> {})"

text \<open>
  \<open>remove\<close>: \<open>self.state.pop(key)\<close>, with the \<open>KeyError\<close> of an absent key caught and
  ignored.
\<close>

definition remove_key :: "('k, 'v) sub_state \<Rightarrow> 'k \<Rightarrow> ('k, 'v) sub_state" where
  "remove_key st key = (case st key of
      None \<Rightarrow> st
    | Some _ \<Rightarrow> st(key := None))"

text \<open>
  The membership read of a key, as the backends do it: the value of \<open>self.state[key]\<close>.
\<close>

definition members :: "('k, 'v) sub_state \<Rightarrow> 'k \<Rightarrow> 'v set" where
  "members st key = fst (getitem st key)"

section \<open>discord.types: Color\<close>

text \<open>
  Python integers are unbounded, so they are \<open>int\<close>; \<open>&\<close> and \<open>>>\<close> on them are the
  two's-complement operations \<open>AND\<close> and \<open>drop_bit\<close>.
\<close>

record Color =
  blue :: int
  green :: int
  red :: int

definition Color_init :: "int \<Rightarrow> Color" where
  "Color_init val = \<lparr> blue = val AND 255,
                      green = (drop_bit 8 val) AND 255,
                      red = (drop_bit 16 val) AND 255 \<rparr>"

text \<open>
  The format \<open>'%02x'\<close>: lowercase hexadecimal digits of the number, a minus sign in front
  of a negative one, zero-padded on the left to two characters.
\<close>

definition hex_char :: "nat \<Rightarrow> char" where
  "hex_char d = ''0123456789abcdef'' ! d"

function hex_digits :: "nat \<Rightarrow> string" where
  "hex_digits n = (if n < 16 then [hex_char n]
                   else hex_digits (n div 16) @ [hex_char (n mod 16)])"
  by pat_completeness auto
termination
  by (relation "measure id") auto

definition fmt_02x :: "int \<Rightarrow> string" where
  "fmt_02x n =
     (let s = (if n < 0 then CHR ''-'' # hex_digits (nat (- n)) else hex_digits (nat n))
      in replicate (2 - length s) CHR ''0'' @ s)"

text \<open>
  \<open>int(s, 16)\<close> on the strings a \<open>%x\<close> format can produce: an optional sign followed by
  at least one hexadecimal digit. \<open>None\<close> stands for \<open>ValueError\<close>. (Python also accepts
  surrounding whitespace, a \<open>0x\<close> prefix and single underscores between digits; no
  \<open>%02x\<close> output contains any of these, and they are outside this definition.)
\<close>

definition hex_val :: "char \<Rightarrow> nat option" where
  "hex_val c =
     (if c \<in> set ''0123456789'' then Some (of_char c - 48)
      else if c \<in> set ''abcdef'' then Some (of_char c - 87)
      else if c \<in> set ''ABCDEF'' then Some (of_char c - 55)
      else None)"

fun hex_body :: "nat \<Rightarrow> string \<Rightarrow> nat option" where
  "hex_body acc [] = Some acc"
| "hex_body acc (c # cs) = (case hex_val c of
      None \<Rightarrow> None
    | Some d \<Rightarrow> hex_body (16 * acc + d) cs)"

definition int_base16 :: "string \<Rightarrow> int option" where
  "int_base16 s =
     (case s of
        [] \<Rightarrow> None
      | c # cs \<Rightarrow>
          if c = CHR ''-'' then
            (if cs = [] then None else map_option (\<lambda>n. - int n) (hex_body 0 cs))
          else if c = CHR ''+'' then
            (if cs = [] then None else map_option int (hex_body 0 cs))
          else map_option int (hex_body 0 s))"

text \<open>
  The \<open>value\<close> property: \<open>int('%02x%02x%02x' % (self.red, self.green, self.blue), 16)\<close>.
\<close>

definition Color_value :: "Color \<Rightarrow> int option" where
  "Color_value c = int_base16 (fmt_02x (red c) @ fmt_02x (green c) @ fmt_02x (blue c))"

section \<open>discord.pubsub.dispatcher: delivery to a list of states\<close>

text \<open>
  A connection state, as \<open>_dispatch_states\<close> uses it: the session id and the websocket
  the event is pushed to.
\<close>

record 'c gw_state =
  session_id :: string
  ws :: 'c

text \<open>
  \<open>state.ws.dispatch(event, data)\<close> belongs to the gateway websocket, which is outside
  the dispatcher; it is a parameter of the model. It acts on the outside world \<open>'w\<close>
  (the transports) and either returns (\<open>None\<close>) or raises (\<open>Some e\<close>); the world it
  leaves behind is returned in both cases.
\<close>

type_synonym ('w, 'c, 'd, 'e) ws_dispatch = "'w \<Rightarrow> 'c \<Rightarrow> string \<Rightarrow> 'd \<Rightarrow> 'e option \<times> 'w"

text \<open>
  The loop of \<open>_dispatch_states\<close>. The accumulator holds the world, the list \<open>res\<close> and
  the exceptions handed to \<open>log.exception\<close>. The bare \<open>except:\<close> catches whatever the
  push raises, so the loop has no raising branch.
\<close>

fun dispatch_states_loop ::
  "('w, 'c, 'd, 'e) ws_dispatch \<Rightarrow> 'c gw_state list \<Rightarrow> string \<Rightarrow> 'd
    \<Rightarrow> 'w \<times> string list \<times> 'e list \<Rightarrow> 'w \<times> string list \<times> 'e list" where
  "dispatch_states_loop push [] event data acc = acc"
| "dispatch_states_loop push (state # states) event data (w, res, logged) =
     (case push w (ws state) event data of
        (None, w') \<Rightarrow> dispatch_states_loop push states event data (w', res @ [session_id state], logged)
      | (Some e, w') \<Rightarrow> dispatch_states_loop push states event data (w', res, logged @ [e]))"

definition dispatch_states ::
  "('w, 'c, 'd, 'e) ws_dispatch \<Rightarrow> 'w \<Rightarrow> 'c gw_state list \<Rightarrow> string \<Rightarrow> 'd
    \<Rightarrow> 'w \<times> string list \<times> 'e list" where
  "dispatch_states push w states event data =
     dispatch_states_loop push states event data (w, [], [])"

text \<open>
  The pushes of one call, as they happen: every state of the list in order, each with the
  outcome of its push in the world the earlier pushes left behind.
\<close>

fun pushes ::
  "('w, 'c, 'd, 'e) ws_dispatch \<Rightarrow> 'w \<Rightarrow> 'c gw_state list \<Rightarrow> string \<Rightarrow> 'd
    \<Rightarrow> ('c gw_state \<times> 'e option) list" where
  "pushes push w [] event data = []"
| "pushes push w (state # states) event data =
     (case push w (ws state) event data of
        (r, w') \<Rightarrow> (state, r) # pushes push w' states event data)"

section \<open>discord.gateway.gateway: websocket_handler\<close>

text \<open>
  \<open>args\<close> is the dictionary \<open>urllib.parse.parse_qs\<close> returns for the query of the URL:
  from parameter names to the lists of their values. \<open>args[name][0]\<close> raises \<open>KeyError\<close>
  for an absent name and \<open>IndexError\<close> for an empty list.
\<close>

type_synonym query_args = "string \<rightharpoonup> string list"

datatype py_error = KeyError | IndexError

definition first_value :: "query_args \<Rightarrow> string \<Rightarrow> py_error + string" where
  "first_value args name = (case args name of
      None \<Rightarrow> Inl KeyError
    | Some [] \<Rightarrow> Inl IndexError
    | Some (x # _) \<Rightarrow> Inr x)"

text \<open>
  What the handler does with the connection: \<open>ws.close(code, reason)\<close>, or the
  construction of a \<open>GatewayWebsocket\<close> with \<open>v\<close>, \<open>encoding\<close> and \<open>compress\<close>
  (\<open>None\<close> for Python's \<open>None\<close>) followed by its \<open>run\<close>.
\<close>

datatype handler_result =
  Close nat string
| Run string string "string option"

definition gw_version :: "query_args \<Rightarrow> string" where
  "gw_version args = (case first_value args ''v'' of Inl _ \<Rightarrow> ''6'' | Inr x \<Rightarrow> x)"

definition gw_encoding :: "query_args \<Rightarrow> string" where
  "gw_encoding args = (case first_value args ''encoding'' of Inl _ \<Rightarrow> ''json'' | Inr x \<Rightarrow> x)"

definition gw_compress :: "query_args \<Rightarrow> string option" where
  "gw_compress args = (case first_value args ''compress'' of Inl _ \<Rightarrow> None | Inr x \<Rightarrow> Some x)"

text \<open>Truth value of \<open>gw_compress\<close>: \<open>None\<close> and the empty string are false.\<close>

definition truthy :: "string option \<Rightarrow> bool" where
  "truthy c = (case c of None \<Rightarrow> False | Some s \<Rightarrow> s \<noteq> [])"

definition websocket_handler :: "query_args \<Rightarrow> handler_result" where
  "websocket_handler args =
     (if gw_version args \<notin> set [''6'', ''7''] then Close 1000 ''Invalid gateway version''
      else if gw_encoding args \<notin> set [''json'', ''etf''] then Close 1000 ''Invalid gateway encoding''
      else if truthy (gw_compress args) \<and> gw_compress args \<notin> set [Some ''zlib-stream'']
        then Close 1000 ''Invalid gateway compress''
      else Run (gw_version args) (gw_encoding args) (gw_compress args))"

text \<open>
  The requests the handler cannot serve, in the words of the specification: a protocol
  version other than the two supported ones, an encoding other than the two supported
  ones (\<open>json\<close> and the binary one, whose name on the wire is \<open>etf\<close>), or a requested
  compression other than the streaming mode \<open>zlib-stream\<close>. A compression is requested
  when the first \<open>compress\<close> value is a non-empty string (\<open>parse_qs\<close> drops parameters
  with a blank value, so no URL yields an empty one).
\<close>

definition unsupported_request :: "query_args \<Rightarrow> bool" where
  "unsupported_request args =
     (gw_version args \<notin> {''6'', ''7''}
      \<or> gw_encoding args \<notin> {''json'', ''etf''}
      \<or> (\<exists>c. gw_compress args = Some c \<and> c \<noteq> [] \<and> c \<noteq> ''zlib-stream''))"

text \<open>
  A parameter the query string leaves out: no entry in the dictionary, or an entry with
  no value. A parameter supplied with a blank value is dropped by \<open>parse_qs\<close> and
  arrives as no entry.
\<close>

definition omitted :: "query_args \<Rightarrow> string \<Rightarrow> bool" where
  "omitted args name = (args name = None \<or> args name = Some [])"

section \<open>Event payloads\<close>

text \<open>The payloads are Python dictionaries handed to the JSON encoder.\<close>

datatype json =
  JNull
| JBool bool
| JInt int
| JStr string
| JList "json list"
| JObj "(string \<times> json) list"

text \<open>\<open>str(n)\<close> of a non-negative integer identifier: its decimal digits.\<close>

definition digit_char :: "nat \<Rightarrow> char" where
  "digit_char d = ''0123456789'' ! d"

function str_nat :: "nat \<Rightarrow> string" where
  "str_nat n = (if n < 10 then [digit_char n]
                else str_nat (n div 10) @ [digit_char (n mod 10)])"
  by pat_completeness auto
termination
  by (relation "measure id") auto

section \<open>The event dispatcher behind \<open>app.dispatcher\<close>\<close>

text \<open>
  The collaborators of the blueprints: the push of the gateway websocket, the session
  registry, the storage reads, and the two dispatch operations the specification leaves
  to the backends (\<open>dispatch_user_guild\<close> and the dispatch of the \<open>lazy_guild\<close>
  backend), which act on the outside world only.
\<close>

record ('w, 'c, 'e) env =
  push :: "('w, 'c, json, 'e) ws_dispatch"
  user_states :: "nat \<Rightarrow> 'c gw_state list"
  get_user :: "nat \<Rightarrow> json"
  get_user_secure :: "nat \<Rightarrow> json"
  get_user_guilds :: "nat \<Rightarrow> nat list"
  get_friend_ids :: "nat \<Rightarrow> nat list"
  dispatch_user_guild :: "nat \<Rightarrow> nat \<Rightarrow> string \<Rightarrow> json \<Rightarrow> 'w \<Rightarrow> 'w"
  lazy_guild_dispatch :: "nat \<Rightarrow> string \<Rightarrow> nat \<Rightarrow> 'w \<Rightarrow> 'w"

text \<open>
  The application state the blueprints act on: the rows \<open>(guild_id, user_id)\<close> of the
  table \<open>members\<close>, the subscription table of each backend by namespace, and the outside
  world.
\<close>

record 'w app =
  db_members :: "(nat \<times> nat) set"
  backends :: "string \<Rightarrow> (nat, nat) sub_state"
  world :: 'w

text \<open>
  Modelled from the spec: the states a dispatch to a key resolves, missing from the
  sources with the backends. The backend snapshots \<open>members(key)\<close> and resolves each
  subscriber's live sessions through the session registry. The members are taken in
  increasing order; the specification fixes no order.
\<close>

definition key_states ::
  "('w, 'c, 'e) env \<Rightarrow> (nat, nat) sub_state \<Rightarrow> nat \<Rightarrow> 'c gw_state list" where
  "key_states env st key =
     concat (map (user_states env) (sorted_list_of_set (members st key)))"

text \<open>
  Modelled from the spec: \<open>dispatch(namespace, id, event_name, payload)\<close> of the
  dispatcher, missing from the sources. It looks up the backend of the namespace, pushes
  the event to each session resolved for the key and returns the list of session ids
  reached.
\<close>

definition dispatch ::
  "('w, 'c, 'e) env \<Rightarrow> string \<Rightarrow> nat \<Rightarrow> string \<Rightarrow> json \<Rightarrow> 'w app \<Rightarrow> string list \<times> 'w app" where
  "dispatch env namespace key event data app =
     (case dispatch_states (push env) (world app)
             (key_states env (backends app namespace) key) event data of
        (w', res, _) \<Rightarrow> (res, app\<lparr>world := w'\<rparr>))"

text \<open>
  Modelled from the spec: \<open>dispatch_filter(key, predicate, ...)\<close>, missing from the
  sources. Like \<open>dispatch\<close>, with the sessions the predicate rejects left out.
\<close>

definition dispatch_filter ::
  "('w, 'c, 'e) env \<Rightarrow> string \<Rightarrow> nat \<Rightarrow> (string \<Rightarrow> bool) \<Rightarrow> string \<Rightarrow> json \<Rightarrow> 'w app
    \<Rightarrow> string list \<times> 'w app" where
  "dispatch_filter env namespace key func event data app =
     (case dispatch_states (push env) (world app)
             (filter (\<lambda>state. func (session_id state))
                (key_states env (backends app namespace) key)) event data of
        (w', res, _) \<Rightarrow> (res, app\<lparr>world := w'\<rparr>))"

text \<open>
  Modelled from the spec: \<open>dispatch_guild(guild_id, event_name, payload)\<close>, missing from
  the sources: a wrapper over \<open>dispatch("guild", guild_id, ...)\<close>.
\<close>

definition dispatch_guild ::
  "('w, 'c, 'e) env \<Rightarrow> nat \<Rightarrow> string \<Rightarrow> json \<Rightarrow> 'w app \<Rightarrow> string list \<times> 'w app" where
  "dispatch_guild env guild_id event data app = dispatch env ''guild'' guild_id event data app"

text \<open>
  Modelled from the spec: \<open>dispatch_user(user_id, event_name, payload)\<close>, missing from
  the sources. It bypasses the subscriptions and reaches every live session registered
  for the user.
\<close>

definition dispatch_user ::
  "('w, 'c, 'e) env \<Rightarrow> nat \<Rightarrow> string \<Rightarrow> json \<Rightarrow> 'w app \<Rightarrow> string list \<times> 'w app" where
  "dispatch_user env user_id event data app =
     (case dispatch_states (push env) (world app) (user_states env user_id) event data of
        (w', res, _) \<Rightarrow> (res, app\<lparr>world := w'\<rparr>))"

text \<open>
  Modelled from the spec: \<open>dispatch_many_filter_list(namespace, ids, already_reached,
  event_name, payload)\<close>, missing from the sources. A sequential dispatch over the keys in
  which the sessions already present in \<open>already_reached\<close> are skipped for every key; the
  sessions reached through a key are already reached for the keys after it. It returns
  the list of session ids it reached. \<open>already_reached\<close> is a list of session ids: it is
  what \<open>mass_user_update\<close> passes, the ids the earlier dispatches returned.
\<close>

fun dispatch_many_filter_list ::
  "('w, 'c, 'e) env \<Rightarrow> string \<Rightarrow> nat list \<Rightarrow> string list \<Rightarrow> string \<Rightarrow> json \<Rightarrow> 'w app
    \<Rightarrow> string list \<times> 'w app" where
  "dispatch_many_filter_list env namespace [] already_reached event data app = ([], app)"
| "dispatch_many_filter_list env namespace (key # keys) already_reached event data app =
     (case dispatch_filter env namespace key (\<lambda>sid. sid \<notin> set already_reached) event data app of
        (reached, app') \<Rightarrow>
          (case dispatch_many_filter_list env namespace keys (already_reached @ reached)
                  event data app' of
             (rest, app'') \<Rightarrow> (reached @ rest, app'')))"

text \<open>
  Modelled from the spec: \<open>dispatch_many\<close> for the \<open>lazy_guild\<close> namespace, missing from
  the sources: a sequential dispatch over the keys, each left to the backend.
\<close>

fun dispatch_many_lazy_guild ::
  "('w, 'c, 'e) env \<Rightarrow> nat list \<Rightarrow> string \<Rightarrow> nat \<Rightarrow> 'w \<Rightarrow> 'w" where
  "dispatch_many_lazy_guild env [] event arg w = w"
| "dispatch_many_lazy_guild env (key # keys) event arg w =
     dispatch_many_lazy_guild env keys event arg (lazy_guild_dispatch env key event arg w)"

text \<open>
  Modelled from the spec: \<open>unsub(namespace, id, subscriber)\<close> of the dispatcher,
  missing from the sources: the \<open>unsub\<close> of the backend of the namespace.
\<close>

definition dispatcher_unsub :: "string \<Rightarrow> nat \<Rightarrow> nat \<Rightarrow> 'w app \<Rightarrow> 'w app" where
  "dispatcher_unsub namespace key identifier app =
     app\<lparr>backends := (backends app)(namespace := unsub (backends app namespace) key identifier)\<rparr>"

section \<open>discord.blueprints.guild.mod: remove_member\<close>

definition guild_delete_payload :: "nat \<Rightarrow> json" where
  "guild_delete_payload guild_id =
     JObj [(''guild_id'', JStr (str_nat guild_id)), (''unavailable'', JBool False)]"

definition member_remove_payload :: "('w, 'c, 'e) env \<Rightarrow> nat \<Rightarrow> nat \<Rightarrow> json" where
  "member_remove_payload env guild_id member_id =
     JObj [(''guild_id'', JStr (str_nat guild_id)), (''user'', get_user env member_id)]"

text \<open>
  The state of \<open>remove_member\<close> when it reaches its last statement: the row deleted,
  \<open>GUILD_DELETE\<close> dispatched to the member, the member unsubscribed from the guild key and
  the \<open>lazy_guild\<close> backend told of the removal.
\<close>

definition remove_member_prefix :: "('w, 'c, 'e) env \<Rightarrow> nat \<Rightarrow> nat \<Rightarrow> 'w app \<Rightarrow> 'w app" where
  "remove_member_prefix env guild_id member_id app =
     (let app1 = app\<lparr>db_members := db_members app - {(guild_id, member_id)}\<rparr>;
          app2 = app1\<lparr>world := dispatch_user_guild env member_id guild_id ''GUILD_DELETE''
                                   (guild_delete_payload guild_id) (world app1)\<rparr>;
          app3 = dispatcher_unsub ''guild'' guild_id member_id app2
      in app3\<lparr>world := lazy_guild_dispatch env guild_id ''remove_member'' member_id (world app3)\<rparr>)"

definition remove_member :: "('w, 'c, 'e) env \<Rightarrow> nat \<Rightarrow> nat \<Rightarrow> 'w app \<Rightarrow> 'w app" where
  "remove_member env guild_id member_id app =
     snd (dispatch_guild env guild_id ''GUILD_MEMBER_REMOVE''
            (member_remove_payload env guild_id member_id)
            (remove_member_prefix env guild_id member_id app))"

section \<open>discord.blueprints.users: mass_user_update\<close>

text \<open>
  The three \<open>USER_UPDATE\<close> dispatches of \<open>mass_user_update\<close>, with the list \<open>session_ids\<close>
  they build.
\<close>

definition mass_user_update_sessions ::
  "('w, 'c, 'e) env \<Rightarrow> nat \<Rightarrow> 'w app \<Rightarrow> string list \<times> 'w app" where
  "mass_user_update_sessions env user_id app =
     (let session_ids = [];
          public_user = get_user env user_id;
          private_user = get_user_secure env user_id
      in case dispatch_user env user_id ''USER_UPDATE'' private_user app of
        (r1, app1) \<Rightarrow>
          (let session_ids = session_ids @ r1;
               guild_ids = get_user_guilds env user_id;
               friend_ids = get_friend_ids env user_id
           in case dispatch_many_filter_list env ''guild'' guild_ids session_ids
                     ''USER_UPDATE'' public_user app1 of
             (r2, app2) \<Rightarrow>
               (let session_ids = session_ids @ r2
                in case dispatch_many_filter_list env ''friend'' friend_ids session_ids
                          ''USER_UPDATE'' public_user app2 of
                  (r3, app3) \<Rightarrow> (session_ids @ r3, app3))))"

definition mass_user_update :: "('w, 'c, 'e) env \<Rightarrow> nat \<Rightarrow> 'w app \<Rightarrow> json \<times> 'w app" where
  "mass_user_update env user_id app =
     (case mass_user_update_sessions env user_id app of
        (session_ids, app3) \<Rightarrow>
          (get_user_secure env user_id,
           app3\<lparr>world := dispatch_many_lazy_guild env (get_user_guilds env user_id)
                             ''update_user'' user_id (world app3)\<rparr>))"

section \<open>A concrete deployment\<close>

text \<open>
  A world that records what each websocket received: the pushes are appended to a log,
  and a push to a closed websocket raises.
\<close>

definition log_push ::
  "(string \<Rightarrow> bool) \<Rightarrow> ((string \<times> string \<times> json) list, string, json, string) ws_dispatch" where
  "log_push is_open w c event data =
     (if is_open c then (None, w @ [(c, event, data)]) else (Some ''closed'', w))"

definition session_of :: "string \<Rightarrow> string gw_state" where
  "session_of name = \<lparr> session_id = ''sid-'' @ name, ws = name \<rparr>"

text \<open>
  Users 10 and 20 have one open session each, user 30 has two; user 10 is in guilds 5
  and 6 and has friends 20 and 30.
\<close>

definition env0 :: "((string \<times> string \<times> json) list, string, string) env" where
  "env0 = \<lparr> push = log_push (\<lambda>c. True),
            user_states = (\<lambda>u. if u = 10 then [session_of ''a'']
                                else if u = 20 then [session_of ''b'']
                                else if u = 30 then [session_of ''c'', session_of ''d'']
                                else []),
            get_user = (\<lambda>u. JObj [(''id'', JStr (str_nat u))]),
            get_user_secure = (\<lambda>u. JObj [(''id'', JStr (str_nat u)), (''email'', JStr ''x'')]),
            get_user_guilds = (\<lambda>u. if u = 10 then [5, 6] else []),
            get_friend_ids = (\<lambda>u. if u = 10 then [20, 30] else []),
            dispatch_user_guild = (\<lambda>user_id guild_id event data w.
               fst (dispatch_states (log_push (\<lambda>c. True)) w
                      (if user_id = 10 then [session_of ''a''] else []) event data)),
            lazy_guild_dispatch = (\<lambda>guild_id event arg w. w) \<rparr>"

definition app0 :: "(string \<times> string \<times> json) list app" where
  "app0 = \<lparr> db_members = {(5, 10), (5, 20), (6, 10), (6, 20), (6, 30)},
            backends = (\<lambda>namespace.
               if namespace = ''guild'' then [5 \<mapsto> {10, 20}, 6 \<mapsto> {10, 20, 30}]
               else if namespace = ''friend'' then [20 \<mapsto> {20}, 30 \<mapsto> {30}]
               else Map.empty),
            world = [] \<rparr>"

section \<open>A transport that records deliveries\<close>










section \<open>The gateway handshake\<close>

text \<open>
  The gateway websocket (\<open>GatewayWebsocket\<close>) is not among the sources at hand; only its
  test \<open>test_ready_fields\<close> is. The frames and the handling of an identify frame follow
  the specification.
\<close>

datatype opcode =
  DISPATCH | HEARTBEAT | IDENTIFY | RESUME | HELLO | HEARTBEAT_ACK | INVALID_SESSION | RECONNECT

record frame =
  frame_op :: opcode
  frame_t :: "string option"
  frame_s :: "nat option"
  frame_d :: json

datatype session_state = CONNECTED | IDENTIFIED | RESUMING | READY | CLOSING | CLOSED

record connection =
  conn_state :: session_state
  conn_session_id :: "string option"
  conn_user_id :: "nat option"
  conn_seq :: nat

datatype gw_output = Send frame | CloseWith nat

text \<open>
  The collaborators of the handshake: authentication, the storage reads that build the
  initial state, and the generation of session ids, which is given the ids in use.
\<close>

record gw_env =
  authenticate :: "string \<Rightarrow> nat option"
  storage_user :: "nat \<Rightarrow> json"
  storage_guilds :: "nat \<Rightarrow> json list"
  storage_private_channels :: "nat \<Rightarrow> json list"
  new_session_id :: "string list \<Rightarrow> string"
  heartbeat_interval_ms :: nat

text \<open>The session registry: the registered sessions with their users.\<close>

type_synonym registry = "(string \<times> nat) list"

text \<open>Reading a field of a payload: \<open>data[name]\<close>, with \<open>None\<close> for an absent field.\<close>

definition obj_get :: "json \<Rightarrow> string \<Rightarrow> json option" where
  "obj_get j name = (case j of JObj items \<Rightarrow> map_of items name | _ \<Rightarrow> None)"

text \<open>
  Modelled from the spec: the accepted connection, missing from the sources. The handler
  sends a greeting frame carrying the heartbeat interval and a trace list, and the
  connection is in state \<open>CONNECTED\<close>.
\<close>

definition gw_connect :: "gw_env \<Rightarrow> connection \<times> gw_output list" where
  "gw_connect env =
     (\<lparr> conn_state = CONNECTED, conn_session_id = None, conn_user_id = None, conn_seq = 0 \<rparr>,
      [Send \<lparr> frame_op = HELLO, frame_t = None, frame_s = None,
              frame_d = JObj [(''heartbeat_interval'', JInt (int (heartbeat_interval_ms env))),
                              (''_trace'', JList [])] \<rparr>])"

text \<open>
  Modelled from the spec: the handling of an identify frame, missing from the sources.
  In a state other than \<open>CONNECTED\<close>, and for identify data without a credential token,
  the frame is a protocol violation and the connection is closed with the decode-error
  code 4002. A failed authentication closes with code 4004. On success the handler
  builds the initial state (current user, guild list, private-channel list), allocates a
  session id, registers the session and moves to \<open>READY\<close>, emitting the initial state as
  a dispatch-class frame named \<open>READY\<close>.
\<close>

definition ready_payload :: "gw_env \<Rightarrow> nat \<Rightarrow> string \<Rightarrow> json" where
  "ready_payload env user_id sid =
     JObj [(''user'', storage_user env user_id),
           (''guilds'', JList (storage_guilds env user_id)),
           (''private_channels'', JList (storage_private_channels env user_id)),
           (''session_id'', JStr sid)]"

definition gw_identify ::
  "gw_env \<Rightarrow> json \<Rightarrow> registry \<times> connection \<Rightarrow> (registry \<times> connection) \<times> gw_output list" where
  "gw_identify env data rc =
     (case rc of (reg, conn) \<Rightarrow>
        if conn_state conn \<noteq> CONNECTED then
          ((reg, conn\<lparr>conn_state := CLOSED\<rparr>), [CloseWith 4002])
        else case obj_get data ''token'' of
          Some (JStr token) \<Rightarrow>
            (case authenticate env token of
               None \<Rightarrow> ((reg, conn\<lparr>conn_state := CLOSED\<rparr>), [CloseWith 4004])
             | Some user_id \<Rightarrow>
                 (let sid = new_session_id env (map fst reg);
                      seq = Suc (conn_seq conn)
                  in ((reg @ [(sid, user_id)],
                       conn\<lparr>conn_state := READY, conn_session_id := Some sid,
                            conn_user_id := Some user_id, conn_seq := seq\<rparr>),
                      [Send \<lparr> frame_op = DISPATCH, frame_t = Some ''READY'',
                              frame_s = Some seq,
                              frame_d = ready_payload env user_id sid \<rparr>])))
        | _ \<Rightarrow> ((reg, conn\<lparr>conn_state := CLOSED\<rparr>), [CloseWith 4002]))"

text \<open>
  A fresh connection on which the client sends one identify frame: the outputs of the
  accept followed by those of the identify.
\<close>

definition gw_fresh_identify ::
  "gw_env \<Rightarrow> json \<Rightarrow> registry \<Rightarrow> (registry \<times> connection) \<times> gw_output list" where
  "gw_fresh_identify env data reg =
     (case gw_connect env of (conn, hello) \<Rightarrow>
        (case gw_identify env data (reg, conn) of (rc, out) \<Rightarrow> (rc, hello @ out)))"

text \<open>A generator of session ids is sound when the id it gives is not in use.\<close>

definition fresh_ids :: "gw_env \<Rightarrow> registry \<Rightarrow> bool" where
  "fresh_ids env reg = (new_session_id env (map fst reg) \<notin> set (map fst reg))"

text \<open>
  A concrete gateway: the token \<open>tok\<close> belongs to user 10, and a new session id is one
  character longer than the concatenation of the ids in use.
\<close>

definition gw_env0 :: gw_env where
  "gw_env0 = \<lparr> authenticate = (\<lambda>token. if token = ''tok'' then Some 10 else None),
               storage_user = (\<lambda>u. JObj [(''id'', JStr (str_nat u))]),
               storage_guilds = (\<lambda>u. [JObj [(''id'', JStr ''5'')]]),
               storage_private_channels = (\<lambda>u. []),
               new_session_id = (\<lambda>ids. CHR ''s'' # concat ids),
               heartbeat_interval_ms = 41250 \<rparr>"

section \<open>Properties of the subscription table\<close>

lemma members_sub: "members (sub st k s) k' = (if k' = k then insert s (members st k) else members st k')"
  by (auto simp: members_def sub_def getitem_def split: option.splits)

lemma members_unsub: "members (unsub st k s) k' = (if k' = k then members st k - {s} else members st k')"
  by (auto simp: members_def unsub_def getitem_def split: option.splits)

lemma members_reset: "members (reset st k) k' = (if k' = k then {} else members st k')"
  by (auto simp: members_def reset_def getitem_def split: option.splits)

lemma members_remove_key: "members (remove_key st k) k' = (if k' = k then {} else members st k')"
  by (auto simp: members_def remove_key_def getitem_def split: option.splits)

text \<open>
  C4. Subscribing the same identifier to the same key twice leaves the table exactly as
  after a single call: the dictionary is the same, the subscriber set of the key is the
  same and so is its size. The set holds identifiers (users), never sessions, and \<open>sub\<close>
  does not consult the session registry.
\<close>

theorem sub_idempotent:
  "sub (sub st k s) k s = sub st k s
   \<and> members (sub (sub st k s) k s) k = members (sub st k s) k
   \<and> card (members (sub (sub st k s) k s) k) = card (members (sub st k s) k)"
  by (auto simp: members_def sub_def getitem_def split: option.splits)

text \<open>
  C5. After \<open>reset\<close> the key is still in the dictionary with an empty subscriber set, and
  a following \<open>sub\<close> adds the subscriber. After \<open>remove\<close> the key is gone from the
  dictionary; reading its membership gives the empty set (the read itself re-creates the
  key, it does not raise), a following \<open>sub\<close> re-creates the key with the subscriber, and
  every operation on the key gives what it gives on a dictionary that never held it.
\<close>

theorem reset_remove_not_poison:
  "members (reset st k) k = {}
   \<and> k \<in> dom (reset st k)
   \<and> members (sub (reset st k) k s) k = {s}
   \<and> k \<notin> dom (remove_key st k)
   \<and> members (remove_key st k) k = {}
   \<and> getitem (remove_key st k) k = ({}, (remove_key st k)(k \<mapsto> {}))
   \<and> members (sub (remove_key st k) k s) k = {s}
   \<and> k \<in> dom (sub (remove_key st k) k s)
   \<and> sub (remove_key st k) k s k = sub Map.empty k s k
   \<and> unsub (remove_key st k) k s k = unsub Map.empty k s k
   \<and> reset (remove_key st k) k k = reset Map.empty k k
   \<and> remove_key (remove_key st k) k k = remove_key Map.empty k k"
  by (auto simp: members_def sub_def unsub_def reset_def remove_key_def getitem_def
      split: option.splits)

text \<open>
  C6. \<open>unsub\<close> has no failing branch. When the identifier is not subscribed to the key
  (also when the key was never stored), the membership of every key reads as before; and
  a second \<open>unsub\<close> of the same identifier changes nothing after the first.
\<close>

theorem unsub_absent_noop:
  "(s \<notin> members st k \<longrightarrow> members (unsub st k s) k' = members st k')
   \<and> unsub (unsub st k s) k s = unsub st k s"
  by (auto simp: members_def unsub_def getitem_def split: option.splits)

theorem unsub_absent_noop_witness:
  "(2::nat) \<notin> members (Map.empty :: (nat, nat) sub_state) 7
   \<and> members (unsub (Map.empty :: (nat, nat) sub_state) 7 2) 7 = members Map.empty 7
   \<and> unsub (unsub (Map.empty :: (nat, nat) sub_state) 7 2) 7 2 = unsub Map.empty 7 2"
  using unsub_absent_noop [of "2::nat" "Map.empty :: (nat, nat) sub_state" "7::nat" "7::nat"]
  by (simp add: members_def getitem_def)

section \<open>Properties of delivery to a list of states\<close>

lemma loop_pushes:
  "dispatch_states_loop psh states event data (w, res, logged) =
     (foldl (\<lambda>w st. snd (psh w (ws st) event data)) w states,
      res @ map (session_id \<circ> fst) (filter (\<lambda>p. snd p = None) (pushes psh w states event data)),
      logged @ concat (map (\<lambda>p. case snd p of None \<Rightarrow> [] | Some e \<Rightarrow> [e]) (pushes psh w states event data)))"
proof (induction states arbitrary: w res logged)
  case Nil
  show ?case by simp
next
  case (Cons st sts)
  show ?case
  proof (cases "psh w (ws st) event data")
    case (Pair r w')
    then show ?thesis by (cases r) (simp_all add: Cons.IH)
  qed
qed

lemma pushes_all: "map fst (pushes psh w states event data) = states"
  by (induction states arbitrary: w) (simp_all split: prod.splits)

text \<open>
  C1. \<open>_dispatch_states\<close> pushes to every state of the list, in order, whatever the
  outcome of the earlier pushes: the world it leaves is the one after all the pushes.
  It has no raising branch; what a push raises ends in the log. The list it returns
  holds exactly the session ids of the states whose push returned, in order, and the
  session id of a state whose push raised is not added for that push.
\<close>

theorem dispatch_states_isolation:
  "map fst (pushes psh w states event data) = states
   \<and> dispatch_states psh w states event data
       = (foldl (\<lambda>w st. snd (psh w (ws st) event data)) w states,
          map (session_id \<circ> fst) (filter (\<lambda>p. snd p = None) (pushes psh w states event data)),
          concat (map (\<lambda>p. case snd p of None \<Rightarrow> [] | Some e \<Rightarrow> [e])
                   (pushes psh w states event data)))"
  by (simp add: pushes_all dispatch_states_def loop_pushes)

section \<open>Properties of the websocket handler\<close>

text \<open>
  C7. The handler closes the connection with code 1000 and a non-empty reason exactly
  for the unsupported requests, never with another code, and in every other case it
  constructs and runs the gateway websocket with the negotiated version, encoding and
  compression. A closed connection has no gateway websocket: the two are different
  results.
\<close>

theorem websocket_handler_negotiation:
  "(\<exists>reason. reason \<noteq> [] \<and> websocket_handler args = Close 1000 reason) = unsupported_request args
   \<and> (websocket_handler args = Run (gw_version args) (gw_encoding args) (gw_compress args))
       = (\<not> unsupported_request args)
   \<and> (\<forall>code reason. websocket_handler args = Close code reason \<longrightarrow> code = 1000)"
  by (auto simp: websocket_handler_def unsupported_request_def truthy_def split: option.splits)

theorem websocket_handler_negotiation_witness:
  "unsupported_request [''v'' \<mapsto> [''8'']]
   \<and> websocket_handler [''v'' \<mapsto> [''8'']] = Close 1000 ''Invalid gateway version''
   \<and> \<not> unsupported_request [''v'' \<mapsto> [''7''], ''encoding'' \<mapsto> [''etf''], ''compress'' \<mapsto> [''zlib-stream'']]
   \<and> websocket_handler [''v'' \<mapsto> [''7''], ''encoding'' \<mapsto> [''etf''], ''compress'' \<mapsto> [''zlib-stream'']]
       = Run ''7'' ''etf'' (Some ''zlib-stream'')"
  using websocket_handler_negotiation [of "[''v'' \<mapsto> [''8'']]"]
    websocket_handler_negotiation [of "[''v'' \<mapsto> [''7''], ''encoding'' \<mapsto> [''etf''], ''compress'' \<mapsto> [''zlib-stream'']]"]
  by (simp add: websocket_handler_def unsupported_request_def gw_version_def gw_encoding_def
      gw_compress_def first_value_def truthy_def)

text \<open>
  C9. An omitted \<open>v\<close> gives version \<open>6\<close> and is never the reason of a close; an
  omitted \<open>encoding\<close> gives \<open>json\<close>; an omitted \<open>compress\<close> gives no compression. With
  all three omitted the gateway websocket runs with \<open>6\<close>, \<open>json\<close> and no compression.
\<close>

theorem websocket_handler_defaults:
  "(omitted args ''v'' \<longrightarrow>
      gw_version args = ''6'' \<and> websocket_handler args \<noteq> Close 1000 ''Invalid gateway version'')
   \<and> (omitted args ''encoding'' \<longrightarrow>
      gw_encoding args = ''json'' \<and> websocket_handler args \<noteq> Close 1000 ''Invalid gateway encoding'')
   \<and> (omitted args ''compress'' \<longrightarrow>
      gw_compress args = None \<and> websocket_handler args \<noteq> Close 1000 ''Invalid gateway compress'')
   \<and> (omitted args ''v'' \<and> omitted args ''encoding'' \<and> omitted args ''compress'' \<longrightarrow>
      websocket_handler args = Run ''6'' ''json'' None)
   \<and> (omitted args ''v'' \<and> omitted args ''encoding'' \<longrightarrow>
      websocket_handler args = Run ''6'' ''json'' (gw_compress args)
      \<or> websocket_handler args = Close 1000 ''Invalid gateway compress'')"
  by (auto simp: websocket_handler_def omitted_def gw_version_def gw_encoding_def
      gw_compress_def first_value_def truthy_def split: option.splits list.splits)

theorem websocket_handler_defaults_witness:
  "omitted Map.empty ''v'' \<and> omitted Map.empty ''encoding'' \<and> omitted Map.empty ''compress''
   \<and> websocket_handler Map.empty = Run ''6'' ''json'' None
   \<and> omitted [''compress'' \<mapsto> [''zlib-stream'']] ''v''
   \<and> gw_version [''compress'' \<mapsto> [''zlib-stream'']] = ''6''"
  using websocket_handler_defaults [of Map.empty]
    websocket_handler_defaults [of "[''compress'' \<mapsto> [''zlib-stream'']]"]
  by (simp add: omitted_def)

section \<open>Properties of Color\<close>

lemma hex_char_cases:
  assumes "d < 16"
  shows "d \<in> {0,1,2,3,4,5,6,7,8,9,10,11,12,13,14,15::nat}"
  using assms by simp arith

lemma hex_val_hex_char: "d < 16 \<Longrightarrow> hex_val (hex_char d) = Some d"
  by (drule hex_char_cases) (auto simp: hex_char_def hex_val_def)

lemma hex_char_not_sign: "d < 16 \<Longrightarrow> hex_char d \<noteq> CHR ''-'' \<and> hex_char d \<noteq> CHR ''+''"
  by (drule hex_char_cases) (auto simp: hex_char_def)

lemma fmt_02x_byte:
  assumes "0 \<le> b" "b < 256"
  shows "fmt_02x b = [hex_char (nat b div 16), hex_char (nat b mod 16)]"
proof (cases "nat b < 16")
  case True
  then have "hex_digits (nat b) = [hex_char (nat b)]" by simp
  moreover have "hex_char 0 = CHR ''0''" by (simp add: hex_char_def)
  ultimately show ?thesis using assms True by (simp add: fmt_02x_def)
next
  case False
  then have "hex_digits (nat b) = hex_digits (nat b div 16) @ [hex_char (nat b mod 16)]"
    by (subst hex_digits.simps) simp
  moreover have "nat b div 16 < 16" using assms by (simp add: less_mult_imp_div_less)
  ultimately have "hex_digits (nat b) = [hex_char (nat b div 16), hex_char (nat b mod 16)]"
    by simp
  then show ?thesis using assms by (simp add: fmt_02x_def)
qed

lemma hex_body_byte:
  assumes n: "n < 256"
  shows "hex_body acc (hex_char (n div 16) # hex_char (n mod 16) # cs) = hex_body (256 * acc + n) cs"
proof -
  have "n div 16 < 16" using n by (simp add: less_mult_imp_div_less)
  moreover have "n mod 16 < 16" by simp
  moreover have "16 * (16 * acc + n div 16) + n mod 16 = 256 * acc + n" by presburger
  ultimately show ?thesis by (simp only: hex_body.simps hex_val_hex_char option.case)
qed

lemma and_255: "(v::int) AND 255 = v mod 256"
proof -
  have "(255::int) = mask 8" by (simp add: mask_eq_exp_minus_1)
  then have "v AND 255 = take_bit 8 v" by (simp only: take_bit_eq_mask)
  then show ?thesis by (simp add: take_bit_eq_mod)
qed

lemma split24:
  fixes v :: int
  assumes "0 \<le> v" "v < 2 ^ 24"
  shows "65536 * (v div 65536 mod 256) + 256 * (v div 256 mod 256) + v mod 256 = v"
proof -
  have d3: "v div 65536 = v div 256 div 256"
    using zdiv_zmult2_eq[of 256 v 256] by simp
  have "v div 65536 < 256" using assms by simp
  moreover have "0 \<le> v div 65536" using assms by simp
  ultimately have hi: "v div 65536 mod 256 = v div 256 div 256" using d3 by simp
  have d1: "v = 256 * (v div 256) + v mod 256" by simp
  have d2: "v div 256 = 256 * (v div 256 div 256) + v div 256 mod 256" by simp
  show ?thesis unfolding hi using d1 d2 by linarith
qed

text \<open>
  C10. For every integer \<open>v\<close> with \<open>0 \<le> v < 2 ^ 24\<close>, the \<open>value\<close> of \<open>Color(v)\<close> is \<open>v\<close>:
  formatting the three byte components as two hexadecimal digits each and reading the
  six digits back in base 16 inverts the decomposition.
\<close>

theorem Color_roundtrip:
  assumes "0 \<le> v" "v < 2 ^ 24"
  shows "Color_value (Color_init v) = Some v"
proof -
  define r g b where "r = nat (v div 65536 mod 256)" and "g = nat (v div 256 mod 256)"
    and "b = nat (v mod 256)"
  have rng: "r < 256" "g < 256" "b < 256" by (simp_all add: r_def g_def b_def nat_less_iff)
  have fr: "fmt_02x (red (Color_init v)) = [hex_char (r div 16), hex_char (r mod 16)]"
    unfolding r_def by (rule trans[OF _ fmt_02x_byte]) (simp_all add: Color_init_def and_255 drop_bit_int_def)
  have fg: "fmt_02x (green (Color_init v)) = [hex_char (g div 16), hex_char (g mod 16)]"
    unfolding g_def by (rule trans[OF _ fmt_02x_byte]) (simp_all add: Color_init_def and_255 drop_bit_int_def)
  have fb: "fmt_02x (blue (Color_init v)) = [hex_char (b div 16), hex_char (b mod 16)]"
    unfolding b_def by (rule trans[OF _ fmt_02x_byte]) (simp_all add: Color_init_def and_255 drop_bit_int_def)
  have first: "hex_char (r div 16) \<noteq> CHR ''-''" "hex_char (r div 16) \<noteq> CHR ''+''"
    using hex_char_not_sign[of "r div 16"] rng by (simp_all add: less_mult_imp_div_less)
  have "hex_body 0 [hex_char (r div 16), hex_char (r mod 16), hex_char (g div 16), hex_char (g mod 16),
        hex_char (b div 16), hex_char (b mod 16)]
      = hex_body (256 * 0 + r) [hex_char (g div 16), hex_char (g mod 16), hex_char (b div 16), hex_char (b mod 16)]"
    using rng(1) by (rule hex_body_byte)
  also have "\<dots> = hex_body (256 * (256 * 0 + r) + g) [hex_char (b div 16), hex_char (b mod 16)]"
    using rng(2) by (rule hex_body_byte)
  also have "\<dots> = hex_body (256 * (256 * (256 * 0 + r) + g) + b) []"
    using rng(3) by (rule hex_body_byte)
  also have "\<dots> = Some (65536 * r + 256 * g + b)" by simp
  finally have body: "hex_body 0 [hex_char (r div 16), hex_char (r mod 16), hex_char (g div 16), hex_char (g mod 16),
        hex_char (b div 16), hex_char (b mod 16)] = Some (65536 * r + 256 * g + b)" .
  have ir: "int r = v div 65536 mod 256" and ig: "int g = v div 256 mod 256"
    and ib: "int b = v mod 256"
    by (simp_all add: r_def g_def b_def)
  have "int (65536 * r + 256 * g + b) = 65536 * int r + 256 * int g + int b" by simp
  also have "\<dots> = 65536 * (v div 65536 mod 256) + 256 * (v div 256 mod 256) + v mod 256"
    by (simp only: ir ig ib)
  also have "\<dots> = v" by (rule split24[OF assms])
  finally have val: "int (65536 * r + 256 * g + b) = v" .
  show ?thesis
    unfolding Color_value_def fr fg fb int_base16_def using first body val by simp
qed

theorem Color_roundtrip_witness:
  "(0::int) \<le> 1223439 \<and> (1223439::int) < 2 ^ 24
   \<and> Color_value (Color_init 1223439) = Some 1223439"
  using Color_roundtrip [of 1223439] by simp

section \<open>Properties of the multi-key dispatch\<close>















lemma key_states_push [simp]:
  "key_states (env\<lparr>push := p\<rparr>) st k = key_states env st k"
  by (simp add: key_states_def)



section \<open>The concrete deployment, evaluated\<close>

lemma ev3: "world (remove_member env0 5 10 app0) =
  [(''a'', ''GUILD_DELETE'', JObj [(''guild_id'', JStr ''5''), (''unavailable'', JBool False)]),
   (''b'', ''GUILD_MEMBER_REMOVE'', JObj [(''guild_id'', JStr ''5''), (''user'', JObj [(''id'', JStr ''10'')])])]"
  by code_simp

lemma env0_user: "user_states env0 10 = [session_of ''a'']" "get_user_guilds env0 10 = [5, 6]"
  "get_friend_ids env0 10 = [20, 30]"
  by (simp_all add: env0_def)

lemma payload0: "member_remove_payload env0 5 10
    = JObj [(''guild_id'', JStr ''5''), (''user'', JObj [(''id'', JStr ''10'')])]"
  by code_simp

lemma member0: "members (backends app0 ''guild'') 5 = {10, 20}"
  by (simp add: app0_def members_def getitem_def)













section \<open>Properties of remove_member\<close>

lemma set_sorted_list_subset: "set (sorted_list_of_set A) \<subseteq> A"
  by (cases "finite A") simp_all

text \<open>
  C3, as the code has it. \<open>remove_member\<close> dispatches \<open>GUILD_DELETE\<close> to the member,
  then unsubscribes the member from the guild key, then tells the \<open>lazy_guild\<close> backend,
  and only then dispatches \<open>GUILD_MEMBER_REMOVE\<close> to the guild key: the event is pushed
  to the sessions of the subscribers left after the unsubscribe, the previous subscribers
  without the removed member, and the removed member is not among them.
\<close>

theorem remove_member_dispatch_order:
  "backends (remove_member env g m app) ''guild'' = unsub (backends app ''guild'') g m
   \<and> members (backends (remove_member_prefix env g m app) ''guild'') g
       = members (backends app ''guild'') g - {m}
   \<and> world (remove_member_prefix env g m app)
       = lazy_guild_dispatch env g ''remove_member'' m
           (dispatch_user_guild env m g ''GUILD_DELETE'' (guild_delete_payload g) (world app))
   \<and> world (remove_member env g m app)
       = fst (dispatch_states (push env) (world (remove_member_prefix env g m app))
                (concat (map (user_states env)
                   (sorted_list_of_set (members (backends app ''guild'') g - {m}))))
                ''GUILD_MEMBER_REMOVE'' (member_remove_payload env g m))
   \<and> m \<notin> set (sorted_list_of_set (members (backends app ''guild'') g - {m}))"
proof -
  have b: "backends (remove_member_prefix env g m app) ''guild'' = unsub (backends app ''guild'') g m"
    by (simp add: remove_member_prefix_def dispatcher_unsub_def Let_def)
  have w: "world (remove_member_prefix env g m app)
       = lazy_guild_dispatch env g ''remove_member'' m
           (dispatch_user_guild env m g ''GUILD_DELETE'' (guild_delete_payload g) (world app))"
    by (simp add: remove_member_prefix_def dispatcher_unsub_def Let_def)
  have mem: "members (backends (remove_member_prefix env g m app) ''guild'') g
       = members (backends app ''guild'') g - {m}"
    by (simp add: b members_unsub)
  have ks: "key_states env (backends (remove_member_prefix env g m app) ''guild'') g
      = concat (map (user_states env) (sorted_list_of_set (members (backends app ''guild'') g - {m})))"
    by (simp add: key_states_def mem)
  have r: "remove_member env g m app
      = (case dispatch_states (push env) (world (remove_member_prefix env g m app))
           (key_states env (backends (remove_member_prefix env g m app) ''guild'') g)
           ''GUILD_MEMBER_REMOVE'' (member_remove_payload env g m) of
         (w', res, _) \<Rightarrow> (remove_member_prefix env g m app)\<lparr>world := w'\<rparr>)"
    by (simp add: remove_member_def dispatch_guild_def dispatch_def split: prod.splits)
  have c1: "backends (remove_member env g m app) ''guild'' = unsub (backends app ''guild'') g m"
    unfolding r by (simp add: b split: prod.splits)
  have c4: "world (remove_member env g m app)
       = fst (dispatch_states (push env) (world (remove_member_prefix env g m app))
                (concat (map (user_states env)
                   (sorted_list_of_set (members (backends app ''guild'') g - {m}))))
                ''GUILD_MEMBER_REMOVE'' (member_remove_payload env g m))"
    unfolding r ks by (simp split: prod.splits)
  have c5: "m \<notin> set (sorted_list_of_set (members (backends app ''guild'') g - {m}))"
    using set_sorted_list_subset[of "members (backends app ''guild'') g - {m}"] by blast
  show ?thesis using c1 mem w c4 c5 by blast
qed

theorem remove_member_dispatch_order_witness:
  "world (remove_member env0 5 10 app0)
     = fst (dispatch_states (push env0) (world (remove_member_prefix env0 5 10 app0))
              [session_of ''b''] ''GUILD_MEMBER_REMOVE'' (member_remove_payload env0 5 10))
   \<and> members (backends (remove_member env0 5 10 app0) ''guild'') 5 = {20}"
  using remove_member_dispatch_order [of env0 5 10 app0]
  by (simp add: member0 members_unsub env0_def)

text \<open>
  C3, as the claim states it, fails: in the concrete deployment user 10 is subscribed to
  guild 5 with one open session, and after \<open>remove_member\<close> of user 10 from guild 5 that
  session has not received \<open>GUILD_MEMBER_REMOVE\<close>, while the session of the remaining
  member 20 has.
\<close>

theorem remove_member_counterexample:
  "10 \<in> members (backends app0 ''guild'') 5
   \<and> session_of ''a'' \<in> set (user_states env0 10)
   \<and> (''a'', ''GUILD_MEMBER_REMOVE'', member_remove_payload env0 5 10)
        \<notin> set (world (remove_member env0 5 10 app0))
   \<and> (''b'', ''GUILD_MEMBER_REMOVE'', member_remove_payload env0 5 10)
        \<in> set (world (remove_member env0 5 10 app0))"
  by (simp add: ev3 env0_user payload0 member0)

section \<open>Properties of the gateway handshake\<close>

text \<open>
  C8. On a fresh connection the handler sends the greeting; when the client then sends
  an identify frame whose token authenticates, the handler emits one further frame: a
  dispatch-class frame with event name \<open>READY\<close> whose data holds the current user, the
  guild list, the private-channel list and the session id, a string. The session id is
  the one the generator allocates, it is not in use before when the generator is sound,
  and the session is registered under it in state \<open>READY\<close>.
\<close>

theorem identify_emits_ready:
  "obj_get data ''token'' = Some (JStr token) \<and> authenticate env token = Some user_id \<longrightarrow>
     (\<exists>sid hello ready conn'.
        gw_fresh_identify env data reg = ((reg @ [(sid, user_id)], conn'), [Send hello, Send ready])
        \<and> frame_op hello = HELLO
        \<and> frame_op ready = DISPATCH
        \<and> frame_t ready = Some ''READY''
        \<and> obj_get (frame_d ready) ''user'' = Some (storage_user env user_id)
        \<and> obj_get (frame_d ready) ''guilds'' = Some (JList (storage_guilds env user_id))
        \<and> obj_get (frame_d ready) ''private_channels''
             = Some (JList (storage_private_channels env user_id))
        \<and> obj_get (frame_d ready) ''session_id'' = Some (JStr sid)
        \<and> sid = new_session_id env (map fst reg)
        \<and> (fresh_ids env reg \<longrightarrow> sid \<notin> set (map fst reg))
        \<and> conn_state conn' = READY
        \<and> conn_session_id conn' = Some sid
        \<and> conn_user_id conn' = Some user_id)"
  by (simp add: gw_fresh_identify_def gw_connect_def gw_identify_def ready_payload_def
      obj_get_def fresh_ids_def Let_def)

theorem identify_emits_ready_witness:
  "obj_get (JObj [(''token'', JStr ''tok'')]) ''token'' = Some (JStr ''tok'')
   \<and> authenticate gw_env0 ''tok'' = Some 10
   \<and> fresh_ids gw_env0 [(''s'', 20)]
   \<and> snd (gw_fresh_identify gw_env0 (JObj [(''token'', JStr ''tok'')]) [(''s'', 20)])
       = [Send \<lparr> frame_op = HELLO, frame_t = None, frame_s = None,
                  frame_d = JObj [(''heartbeat_interval'', JInt 41250), (''_trace'', JList [])] \<rparr>,
          Send \<lparr> frame_op = DISPATCH, frame_t = Some ''READY'', frame_s = Some 1,
                  frame_d = JObj [(''user'', JObj [(''id'', JStr ''10'')]),
                                  (''guilds'', JList [JObj [(''id'', JStr ''5'')]]),
                                  (''private_channels'', JList []),
                                  (''session_id'', JStr ''ss'')] \<rparr>]"
  using identify_emits_ready [of "JObj [(''token'', JStr ''tok'')]" "''tok''" gw_env0 10 "[(''s'', 20)]"]
  by (simp add: gw_fresh_identify_def gw_connect_def gw_identify_def ready_payload_def
      obj_get_def fresh_ids_def gw_env0_def digit_char_def Let_def)

end
